theory Spec2Isabelle
  imports Complex_Main
begin

section \<open>DRAG calibration analysis (drag\_analysis.py)\<close>

text \<open>
  A shallow embedding of \<^verbatim>\<open>DragCalAnalysis\<close>: the post-processing of a fit result
  (\<^verbatim>\<open>_post_process_fit_result\<close>), the quality label (\<^verbatim>\<open>_evaluate_quality\<close>) and the
  generation of the initial guesses (\<^verbatim>\<open>_generate_fit_guesses\<close>).

  Numbers: the Python floats of the source are idealised as the reals (\<^typ>\<open>real\<close>), so
  rounding, overflow, infinities and NaN are outside the model; the one infinity the source
  writes down (\<^verbatim>\<open>np.inf\<close> as a bound) is a constructor of its own. Exceptions are values
  of the type \<open>error\<close>, and a function that can raise returns \<open>error + 'a\<close>.
\<close>

subsection \<open>Python's arithmetic, with its exceptions\<close>

datatype error = ZeroDivisionError | ValueError | IndexError | KeyError | TypeError

text \<open>Sequencing of computations that may raise: the first exception wins.\<close>

definition bind_res :: "error + 'a \<Rightarrow> ('a \<Rightarrow> error + 'b) \<Rightarrow> error + 'b" where
  "bind_res m f = (case m of Inl e \<Rightarrow> Inl e | Inr v \<Rightarrow> f v)"

text \<open>\<^verbatim>\<open>a / b\<close>: true division raises on a zero divisor.\<close>

definition py_truediv :: "real \<Rightarrow> real \<Rightarrow> error + real" where
  "py_truediv a b = (if b = 0 then Inl ZeroDivisionError else Inr (a / b))"

text \<open>
  \<^verbatim>\<open>a % b\<close> on floats: the remainder has the sign of the divisor, that is
  \<open>a - b * floor (a / b)\<close>; a zero divisor raises.
\<close>

definition py_mod :: "real \<Rightarrow> real \<Rightarrow> error + real" where
  "py_mod a b = (if b = 0 then Inl ZeroDivisionError else Inr (a - b * of_int \<lfloor>a / b\<rfloor>))"

text \<open>\<^verbatim>\<open>xs[i]\<close> with a non-negative index: out of range raises.\<close>

definition getitem :: "'a list \<Rightarrow> nat \<Rightarrow> error + 'a" where
  "getitem xs i = (if i < length xs then Inr (xs ! i) else Inl IndexError)"

text \<open>\<^verbatim>\<open>min(xs)\<close> and \<^verbatim>\<open>max(xs)\<close> of a sequence: an empty one raises \<^verbatim>\<open>ValueError\<close>.\<close>

definition py_min :: "real list \<Rightarrow> error + real" where
  "py_min xs = (case xs of [] \<Rightarrow> Inl ValueError | v # vs \<Rightarrow> Inr (fold min vs v))"

definition py_max :: "real list \<Rightarrow> error + real" where
  "py_max xs = (case xs of [] \<Rightarrow> Inl ValueError | v # vs \<Rightarrow> Inr (fold max vs v))"

text \<open>\<^verbatim>\<open>np.ptp(xs)\<close>: the maximum minus the minimum.\<close>

definition ptp :: "real list \<Rightarrow> error + real" where
  "ptp xs = bind_res (py_max xs) (\<lambda>hi. bind_res (py_min xs) (\<lambda>lo. Inr (hi - lo)))"

text \<open>
  \<^verbatim>\<open>np.linspace(start, stop, num)\<close>: \<open>num\<close> points from \<open>start\<close> to \<open>stop\<close>, both
  included, with the step \<open>(stop - start) / (num - 1)\<close>.
\<close>

definition linspace :: "real \<Rightarrow> real \<Rightarrow> nat \<Rightarrow> real list" where
  "linspace start stop num =
     map (\<lambda>i. start + real i * ((stop - start) / real (num - 1))) [0..<num]"

subsection \<open>The fit result and its post-processing\<close>

text \<open>
  Modelled from the spec: the class \<^verbatim>\<open>curve.FitData\<close> is not in this file. A fit result
  is the best-fit parameter vector \<open>popt\<close> (in the order of the fit function's
  parameters: amp, freq, beta, base), the parameters' uncertainties, their covariance and
  the reduced chi-squared. Whatever else the class carries is the record's extension, so
  the functions below are stated for every extension of the record.
\<close>

record fit_data =
  popt :: "real list"
  popt_err :: "real list"
  pcov :: "real list list"
  reduced_chisq :: real

text \<open>
  Line 213, the right-hand side
  \<^verbatim>\<open>((beta + 1 / freq / 2) % (1 / freq)) - 1 / freq / 2\<close>,
  every division and the modulo in the order Python evaluates them. This is the expression
  in exact arithmetic. On doubles the sum, the remainder and the difference are rounded:
  the remainder can come out equal to the divisor, and two inputs one period apart can
  give results that differ in the last digits.
\<close>

definition canonical_beta :: "real \<Rightarrow> real \<Rightarrow> error + real" where
  "canonical_beta beta freq =
     bind_res (py_truediv 1 freq) (\<lambda>a.
     bind_res (py_truediv a 2) (\<lambda>b.
     bind_res (py_truediv 1 freq) (\<lambda>c.
     bind_res (py_mod (beta + b) c) (\<lambda>m.
     bind_res (py_truediv 1 freq) (\<lambda>d.
     bind_res (py_truediv d 2) (\<lambda>e.
     Inr (m - e)))))))"

text \<open>
  \<^verbatim>\<open>_post_process_fit_result\<close>: reads \<^verbatim>\<open>popt[2]\<close> and \<^verbatim>\<open>popt[1]\<close>, stores the
  canonical beta in \<^verbatim>\<open>popt[2]\<close> and returns the fit result. The source mutates the
  object in place; the model returns the new value.
\<close>

definition post_process_fit_result :: "'a fit_data_scheme \<Rightarrow> error + 'a fit_data_scheme" where
  "post_process_fit_result fit_result =
     bind_res (getitem (popt fit_result) 2) (\<lambda>beta.
     bind_res (getitem (popt fit_result) 1) (\<lambda>freq.
     bind_res (canonical_beta beta freq) (\<lambda>v.
     Inr (fit_result\<lparr>popt := (popt fit_result)[2 := v]\<rparr>))))"

subsection \<open>The quality of a fit\<close>

text \<open>
  Modelled from the spec: the value with an uncertainty that \<^verbatim>\<open>FitData.fitval\<close> returns
  (a nominal value and a standard deviation). \<^verbatim>\<open>fitval\<close> itself and
  \<^verbatim>\<open>curve.is_error_not_significant\<close> are not in this file: they are parameters of the
  model, \<open>fitval fit_data name\<close> for \<^verbatim>\<open>fit_data.fitval(name)\<close>.
\<close>

record ufloat =
  nominal_value :: real
  std_dev :: real

text \<open>
  \<^verbatim>\<open>_evaluate_quality\<close>: the list of the three criteria is built first (so the division
  is evaluated whatever the first criterion says), then \<^verbatim>\<open>all(criteria)\<close> decides.
\<close>

definition evaluate_quality ::
  "(ufloat \<Rightarrow> bool) \<Rightarrow> ('a fit_data_scheme \<Rightarrow> string \<Rightarrow> ufloat) \<Rightarrow> 'a fit_data_scheme
    \<Rightarrow> error + string" where
  "evaluate_quality is_error_not_significant fitval fit_data =
     (let fit_beta = fitval fit_data ''beta'';
          fit_freq = fitval fit_data ''freq''
      in bind_res (py_truediv 1 (nominal_value fit_freq)) (\<lambda>a.
         bind_res (py_truediv a 2) (\<lambda>half_period.
         let criteria =
               [reduced_chisq fit_data < 3,
                \<bar>nominal_value fit_beta\<bar> < half_period,
                is_error_not_significant fit_beta]
         in if list_all (\<lambda>c. c) criteria then Inr ''good'' else Inr ''bad'')))"

subsection \<open>The initial guesses\<close>

text \<open>
  The data of one series, or of all of them (\<^verbatim>\<open>CurveData\<close>, fields \<^verbatim>\<open>x\<close> and
  \<^verbatim>\<open>y\<close>; the fields are named \<open>curve_x\<close> and \<open>curve_y\<close> here).
\<close>

record curve_data =
  curve_x :: "real list"
  curve_y :: "real list"

text \<open>A bound is a float or an infinity (\<^verbatim>\<open>np.inf\<close>).\<close>

datatype xfloat = Fin real | PosInf | NegInf

text \<open>
  Modelled from the spec: \<^verbatim>\<open>curve.FitOptions\<close> is not in this file. A candidate maps
  every parameter name to its initial guess (\<open>p0\<close>) and to its pair of bounds
  (\<open>bounds\<close>); \<open>None\<close> is an entry that has not been set. \<^verbatim>\<open>set_if_empty\<close> is the
  spec's update-if-absent: it sets an entry only if it is unset.
\<close>

record fit_options =
  p0 :: "string \<Rightarrow> real option"
  bounds :: "string \<Rightarrow> (xfloat \<times> xfloat) option"

definition set_if_empty :: "('k \<Rightarrow> 'v option) \<Rightarrow> 'k \<Rightarrow> 'v \<Rightarrow> ('k \<Rightarrow> 'v option)" where
  "set_if_empty d key v = (if d key = None then d(key := Some v) else d)"

text \<open>
  What the method reads of \<^verbatim>\<open>self\<close>: \<^verbatim>\<open>self._data(label)\<close> (\<open>data self (Some label)\<close>),
  \<^verbatim>\<open>self._data()\<close> for the data of all series (\<open>data self None\<close>), and
  \<^verbatim>\<open>self.options.fixed_parameters\<close>, a dictionary from names to repetition counts.
\<close>

record drag_analysis =
  data :: "string option \<Rightarrow> curve_data"
  fixed_parameters :: "string \<Rightarrow> int option"

definition fixed_parameter :: "drag_analysis \<Rightarrow> string \<Rightarrow> error + int" where
  "fixed_parameter self name =
     (case fixed_parameters self name of None \<Rightarrow> Inl KeyError | Some v \<Rightarrow> Inr v)"

text \<open>
  Lines 149 to 154: \<^verbatim>\<open>max\<close> of the three (series, repetitions) labels by the
  repetition count. Python's \<^verbatim>\<open>max\<close> evaluates the key of every item in order and keeps
  the first item whose key is largest.
\<close>

definition highest_reps :: "drag_analysis \<Rightarrow> error + (string \<times> string)" where
  "highest_reps self =
     bind_res (fixed_parameter self ''reps0'') (\<lambda>k0.
     bind_res (fixed_parameter self ''reps1'') (\<lambda>k1.
     bind_res (fixed_parameter self ''reps2'') (\<lambda>k2.
     Inr (fst (fold (\<lambda>item best. if snd best < snd item then item else best)
                 [((''series-1'', ''reps1''), k1), ((''series-2'', ''reps2''), k2)]
                 ((''series-0'', ''reps0''), k0))))))"

text \<open>
  The four statements of \<^verbatim>\<open>_generate_fit_guesses\<close> that write into the options, each
  as a function of the values computed before it.

  Line 158: \<^verbatim>\<open>user_opt.p0.set_if_empty(freq=freqs_guess)\<close>.
\<close>

definition seed_freq :: "fit_options \<Rightarrow> real \<Rightarrow> fit_options" where
  "seed_freq opt freqs_guess = opt\<lparr>p0 := set_if_empty (p0 opt) ''freq'' freqs_guess\<rparr>"

text \<open>
  Lines 165 to 170: \<^verbatim>\<open>user_opt.bounds.set_if_empty(amp=..., freq=..., beta=..., base=...)\<close>,
  one entry after the other.
\<close>

definition seed_bounds ::
  "fit_options \<Rightarrow> real \<Rightarrow> real \<Rightarrow> real \<Rightarrow> real \<Rightarrow> real \<Rightarrow> fit_options" where
  "seed_bounds opt avg_x beta_bound ptp_y min_y max_y =
     opt\<lparr>bounds :=
       set_if_empty
         (set_if_empty
           (set_if_empty
             (set_if_empty (bounds opt)
                ''amp'' (Fin (- 2 * ptp_y), Fin 0))
              ''freq'' (Fin 0, PosInf))
            ''beta'' (Fin (avg_x - beta_bound), Fin (avg_x + beta_bound)))
          ''base'' (Fin (min_y - ptp_y), Fin (max_y + ptp_y))\<rparr>"

text \<open>
  Line 172: \<^verbatim>\<open>user_opt.p0.set_if_empty(base=(user_opt.p0["amp"] or base_guess))\<close>.
  Python's \<^verbatim>\<open>or\<close> yields its right operand when the left one is \<^verbatim>\<open>None\<close> or zero.
\<close>

definition seed_base :: "fit_options \<Rightarrow> real \<Rightarrow> fit_options" where
  "seed_base opt base_guess =
     opt\<lparr>p0 :=
       set_if_empty (p0 opt) ''base''
         (case p0 opt ''amp'' of
            None \<Rightarrow> base_guess
          | Some a \<Rightarrow> if a = 0 then base_guess else a)\<rparr>"

text \<open>
  Lines 179 to 184: the two nested loops. Every candidate is a copy of \<open>user_opt\<close> with
  \<^verbatim>\<open>p0.set_if_empty(amp=ptp_y * amp_factor, beta=beta_guess)\<close>.
\<close>

definition fan_out :: "fit_options \<Rightarrow> real \<Rightarrow> real \<Rightarrow> real \<Rightarrow> fit_options list" where
  "fan_out opt ptp_y min_beta max_beta =
     concat (map (\<lambda>amp_factor.
               map (\<lambda>beta_guess.
                      opt\<lparr>p0 := set_if_empty
                                    (set_if_empty (p0 opt) ''amp'' (ptp_y * amp_factor))
                                    ''beta'' beta_guess\<rparr>)
                   (linspace min_beta max_beta 20))
            [- 1, - (1 / 2), - (1 / 4)])"

text \<open>
  \<^verbatim>\<open>_generate_fit_guesses\<close>. \<^verbatim>\<open>curve.guess.frequency\<close> is not in this file: it is the
  parameter \<open>frequency\<close>. The minimum and maximum of \<open>x_data\<close> (line 146) are read again
  in lines 160 and 161, and those of the y data in lines 169 and 171; the model computes
  each once. The source updates \<open>user_opt\<close> in place and appends copies of it; the model
  passes the successive values on. \<^verbatim>\<open>user_opt.p0["freq"]\<close> in line 162 is never
  \<^verbatim>\<open>None\<close> after line 158; the model keeps that branch as the \<^verbatim>\<open>TypeError\<close> Python
  would raise.
\<close>

definition generate_fit_guesses ::
  "(real list \<Rightarrow> real list \<Rightarrow> real) \<Rightarrow> drag_analysis \<Rightarrow> fit_options
    \<Rightarrow> error + fit_options list" where
  "generate_fit_guesses frequency self user_opt =
     (let x_data = curve_x (data self (Some ''series-0'')) in
      bind_res (py_min x_data) (\<lambda>min_beta.
      bind_res (py_max x_data) (\<lambda>max_beta.
      bind_res (highest_reps self) (\<lambda>(series_label, reps_label).
      let curve_data = data self (Some series_label) in
      bind_res (fixed_parameter self reps_label) (\<lambda>reps2.
      bind_res (py_truediv (frequency (curve_x curve_data) (curve_y curve_data))
                  (of_int reps2)) (\<lambda>freqs_guess.
      let user_opt = seed_freq user_opt freqs_guess;
          avg_x = (max_beta + min_beta) / 2;
          span_x = max_beta - min_beta
      in
      bind_res (case p0 user_opt ''freq'' of
                  None \<Rightarrow> Inl TypeError
                | Some f \<Rightarrow> py_truediv 5 f) (\<lambda>q.
      let beta_bound = max q span_x;
          all_y = curve_y (data self None)
      in
      bind_res (ptp all_y) (\<lambda>ptp_y.
      bind_res (py_min all_y) (\<lambda>min_y.
      bind_res (py_max all_y) (\<lambda>max_y.
      let user_opt = seed_bounds user_opt avg_x beta_bound ptp_y min_y max_y;
          base_guess = (max_y - min_y) / 2;
          user_opt = seed_base user_opt base_guess
      in
      Inr (fan_out user_opt ptp_y min_beta max_beta)))))))))))"

subsection \<open>An example run\<close>

text \<open>
  Concrete inputs, used where a statement below is evaluated: three series over the same
  four x values with the default repetition counts 1, 3 and 5, a stand-in for the frequency
  estimator, options without any user input, and options in which the user gave guesses
  for amp and freq and bounds for beta.
\<close>

definition example_analysis :: drag_analysis where
  "example_analysis =
     \<lparr>data = (\<lambda>label.
         if label = Some ''series-0'' then
           \<lparr>curve_x = [- 1, 0, 1, 3], curve_y = [1 / 4, 1 / 2, 3 / 4, 1 / 2]\<rparr>
         else if label = Some ''series-1'' then
           \<lparr>curve_x = [- 1, 0, 1, 3], curve_y = [3 / 4, 1 / 4, 3 / 4, 1 / 4]\<rparr>
         else if label = Some ''series-2'' then
           \<lparr>curve_x = [- 1, 0, 1, 3], curve_y = [3 / 4, 5 / 8, 1 / 4, 1 / 2]\<rparr>
         else
           \<lparr>curve_x = [- 1, 0, 1, 3, - 1, 0, 1, 3, - 1, 0, 1, 3],
            curve_y = [1 / 4, 1 / 2, 3 / 4, 1 / 2, 3 / 4, 1 / 4, 3 / 4, 1 / 4,
                       3 / 4, 5 / 8, 1 / 4, 1 / 2]\<rparr>),
      fixed_parameters = (\<lambda>name.
         if name = ''reps0'' then Some 1
         else if name = ''reps1'' then Some 3
         else if name = ''reps2'' then Some 5
         else None)\<rparr>"

definition example_frequency :: "real list \<Rightarrow> real list \<Rightarrow> real" where
  "example_frequency xs ys = (case ys of a # b # _ \<Rightarrow> real (length xs) * b | _ \<Rightarrow> 0)"

definition empty_options :: fit_options where
  "empty_options = \<lparr>p0 = (\<lambda>name. None), bounds = (\<lambda>name. None)\<rparr>"

definition example_user_options :: fit_options where
  "example_user_options =
     \<lparr>p0 = (\<lambda>name. if name = ''amp'' then Some (- (3 / 10))
                    else if name = ''freq'' then Some 5 else None),
      bounds = (\<lambda>name. if name = ''beta'' then Some (Fin (- 2), Fin 2) else None)\<rparr>"

section \<open>Properties of the post-processing\<close>

subsection \<open>The remainder and the canonical beta\<close>

lemma py_mod_pos_range:
  fixes a b :: real
  assumes "0 < b"
  shows "0 \<le> a - b * of_int \<lfloor>a / b\<rfloor> \<and> a - b * of_int \<lfloor>a / b\<rfloor> < b"
proof -
  define q :: real where "q = of_int \<lfloor>a / b\<rfloor>"
  have lo: "q \<le> a / b" and hi: "a / b < q + 1"
    unfolding q_def by linarith+
  from lo assms have "q * b \<le> a"
    by (simp add: pos_le_divide_eq)
  moreover from hi assms have "a < (q + 1) * b"
    by (simp add: pos_divide_less_eq)
  ultimately show ?thesis
    unfolding q_def [symmetric] by (simp add: algebra_simps)
qed


lemma canonical_beta_zero: "canonical_beta beta 0 = Inl ZeroDivisionError"
  by (simp add: canonical_beta_def bind_res_def py_truediv_def)

text \<open>For a non-zero frequency nothing raises, and the value is the source's expression.\<close>

lemma canonical_beta_nonzero:
  assumes "freq \<noteq> 0"
  shows "canonical_beta beta freq =
     Inr ((beta + 1 / freq / 2) - (1 / freq) * of_int \<lfloor>(beta + 1 / freq / 2) / (1 / freq)\<rfloor>
          - 1 / freq / 2)"
  using assms by (simp add: canonical_beta_def bind_res_def py_truediv_def py_mod_def)

text \<open>The same value, as the fitted beta shifted by a whole number of periods.\<close>

lemma canonical_beta_shift:
  assumes "freq \<noteq> 0"
  shows "canonical_beta beta freq = Inr (beta - of_int \<lfloor>beta * freq + 1 / 2\<rfloor> / freq)"
proof -
  have "(beta + 1 / freq / 2) / (1 / freq) = beta * freq + 1 / 2"
    using assms by (simp add: field_simps)
  then show ?thesis
    using assms by (simp add: canonical_beta_nonzero)
qed

lemma canonical_beta_pos_range:
  assumes "0 < freq" and "canonical_beta beta freq = Inr v"
  shows "- (1 / (2 * freq)) \<le> v \<and> v < 1 / (2 * freq)"
proof -
  have p: "0 < 1 / freq" using assms(1) by simp
  from assms have v: "v = (beta + 1 / freq / 2)
      - (1 / freq) * of_int \<lfloor>(beta + 1 / freq / 2) / (1 / freq)\<rfloor> - 1 / freq / 2"
    by (simp add: canonical_beta_nonzero)
  from py_mod_pos_range [OF p, of "beta + 1 / freq / 2"] v
  show ?thesis by (simp add: field_simps)
qed


lemma post_process_unfold:
  assumes "2 < length (popt fit_result)"
  shows "post_process_fit_result fit_result =
     bind_res (canonical_beta (popt fit_result ! 2) (popt fit_result ! 1))
       (\<lambda>v. Inr (fit_result\<lparr>popt := (popt fit_result)[2 := v]\<rparr>))"
  using assms by (simp add: post_process_fit_result_def getitem_def bind_res_def)

lemma post_process_short:
  assumes "length (popt fit_result) \<le> 2"
  shows "post_process_fit_result fit_result = Inl IndexError"
  using assms by (simp add: post_process_fit_result_def getitem_def bind_res_def)

lemma getitem_Inr_iff: "getitem xs i = Inr v \<longleftrightarrow> i < length xs \<and> v = xs ! i"
  by (auto simp: getitem_def)

lemma post_process_read:
  assumes "getitem (popt fit_result) 2 = Inr beta" and "getitem (popt fit_result) 1 = Inr freq"
  shows "post_process_fit_result fit_result =
     bind_res (canonical_beta beta freq)
       (\<lambda>v. Inr (fit_result\<lparr>popt := (popt fit_result)[2 := v]\<rparr>))"
  using assms by (simp add: post_process_fit_result_def bind_res_def)

subsection \<open>The canonical interval\<close>

text \<open>
  With \<open>freq = 1\<close> and a fitted beta of \<open>1/2\<close> the post-processing stores \<open>-1/2\<close>,
  the lower end of the interval, which the interval \<open>(-1/2, 1/2]\<close> leaves out.
\<close>

theorem post_process_open_upper_counterexample:
  "post_process_fit_result
     \<lparr>popt = [- 1, 1, 1 / 2, 0], popt_err = [], pcov = [], reduced_chisq = 1\<rparr>
   = Inr \<lparr>popt = [- 1, 1, - (1 / 2), 0], popt_err = [], pcov = [], reduced_chisq = 1\<rparr>
   \<and> \<not> (- (1 / (2 * 1)) < (- (1 / 2) :: real) \<and> (- (1 / 2) :: real) \<le> 1 / (2 * 1))"
  by (simp add: post_process_fit_result_def getitem_def bind_res_def canonical_beta_def
      py_truediv_def py_mod_def)

text \<open>
  C1 (as amended). For every fit result with fitted frequency \<open>freq > 0\<close>, the
  post-processing replaces the fitted beta with
  \<open>((beta + 1/(2 freq)) mod (1/freq)) - 1/(2 freq)\<close> and changes nothing else, and the new
  value lies in the closed interval \<open>[-1/(2 freq), 1/(2 freq)]\<close>.
\<close>

theorem post_process_canonical_beta:
  assumes "getitem (popt fit_result) 2 = Inr beta"
    and "getitem (popt fit_result) 1 = Inr freq"
    and "0 < freq"
  shows "\<exists>m v. py_mod (beta + 1 / (2 * freq)) (1 / freq) = Inr m
           \<and> v = m - 1 / (2 * freq)
           \<and> post_process_fit_result fit_result
               = Inr (fit_result\<lparr>popt := (popt fit_result)[2 := v]\<rparr>)
           \<and> - (1 / (2 * freq)) \<le> v \<and> v \<le> 1 / (2 * freq)"
proof -
  define m where "m = (beta + 1 / (2 * freq)) - (1 / freq) * of_int \<lfloor>(beta + 1 / (2 * freq)) / (1 / freq)\<rfloor>"
  define v where "v = m - 1 / (2 * freq)"
  have nz: "freq \<noteq> 0" using assms(3) by simp
  have cb: "canonical_beta beta freq = Inr v"
    using nz by (simp add: canonical_beta_nonzero v_def m_def mult.commute)
  have "py_mod (beta + 1 / (2 * freq)) (1 / freq) = Inr m"
    using nz by (simp add: py_mod_def m_def)
  moreover have "post_process_fit_result fit_result
      = Inr (fit_result\<lparr>popt := (popt fit_result)[2 := v]\<rparr>)"
    using assms(1,2) cb by (simp add: post_process_read bind_res_def)
  moreover have "- (1 / (2 * freq)) \<le> v \<and> v \<le> 1 / (2 * freq)"
    using canonical_beta_pos_range [OF assms(3) cb] by linarith
  ultimately show ?thesis using v_def by blast
qed

theorem post_process_canonical_beta_witness:
  "getitem (popt \<lparr>popt = [- 1, 2, 7 / 8, 0], popt_err = [], pcov = [], reduced_chisq = 1\<rparr>) 2
     = Inr (7 / 8)
   \<and> getitem (popt \<lparr>popt = [- 1, 2, 7 / 8, 0], popt_err = [], pcov = [], reduced_chisq = 1\<rparr>) 1
     = Inr 2
   \<and> (0::real) < 2
   \<and> post_process_fit_result \<lparr>popt = [- 1, 2, 7 / 8, 0], popt_err = [], pcov = [], reduced_chisq = 1\<rparr>
     = Inr \<lparr>popt = [- 1, 2, - (1 / 8), 0], popt_err = [], pcov = [], reduced_chisq = 1\<rparr>"
proof -
  let ?fr = "\<lparr>popt = [- 1, 2, 7 / 8, 0], popt_err = [], pcov = [], reduced_chisq = 1\<rparr>"
  have b: "getitem (popt ?fr) 2 = Inr (7 / 8)" by (simp add: getitem_def)
  have f: "getitem (popt ?fr) 1 = Inr 2" by (simp add: getitem_def)
  have p: "(0::real) < 2" by simp
  from post_process_canonical_beta [OF b f p]
  obtain m v where m: "py_mod (7 / 8 + 1 / (2 * 2)) (1 / 2) = Inr m"
    and v: "v = m - 1 / (2 * 2)"
    and r: "post_process_fit_result ?fr = Inr (?fr\<lparr>popt := (popt ?fr)[2 := v]\<rparr>)"
    by blast
  have "\<lfloor>(9::real) / 4\<rfloor> = 2" by simp
  with m have "m = 1 / 8" by (simp add: py_mod_def)
  with v have "v = - (1 / 8)" by simp
  with r b f p show ?thesis by simp
qed

subsection \<open>The bound on the canonical beta\<close>

text \<open>
  C3. For every real beta and every \<open>freq > 0\<close>, the post-processing returns a fit result
  whose beta entry \<open>v\<close> satisfies \<open>|v| \<le> 1 / (2 freq)\<close>.
\<close>

theorem post_process_abs_bound:
  assumes "getitem (popt fit_result) 2 = Inr beta"
    and "getitem (popt fit_result) 1 = Inr freq"
    and "0 < freq"
  shows "\<exists>v. canonical_beta beta freq = Inr v
           \<and> post_process_fit_result fit_result
               = Inr (fit_result\<lparr>popt := (popt fit_result)[2 := v]\<rparr>)
           \<and> \<bar>v\<bar> \<le> 1 / (2 * freq)"
proof -
  from assms(3) obtain v where cb: "canonical_beta beta freq = Inr v"
    by (simp add: canonical_beta_shift)
  from canonical_beta_pos_range [OF assms(3) cb] have "\<bar>v\<bar> \<le> 1 / (2 * freq)"
    by linarith
  moreover have "post_process_fit_result fit_result
      = Inr (fit_result\<lparr>popt := (popt fit_result)[2 := v]\<rparr>)"
    using assms(1,2) cb by (simp add: post_process_read bind_res_def)
  ultimately show ?thesis using cb by blast
qed

theorem post_process_abs_bound_witness:
  "getitem (popt \<lparr>popt = [- 1, 1, 5 / 2, 0], popt_err = [], pcov = [], reduced_chisq = 1\<rparr>) 2
     = Inr (5 / 2)
   \<and> getitem (popt \<lparr>popt = [- 1, 1, 5 / 2, 0], popt_err = [], pcov = [], reduced_chisq = 1\<rparr>) 1
     = Inr 1
   \<and> (0::real) < 1
   \<and> post_process_fit_result \<lparr>popt = [- 1, 1, 5 / 2, 0], popt_err = [], pcov = [], reduced_chisq = 1\<rparr>
     = Inr \<lparr>popt = [- 1, 1, - (1 / 2), 0], popt_err = [], pcov = [], reduced_chisq = 1\<rparr>
   \<and> \<bar>- (1 / 2) :: real\<bar> \<le> 1 / (2 * 1)"
proof -
  let ?fr = "\<lparr>popt = [- 1, 1, 5 / 2, 0], popt_err = [], pcov = [], reduced_chisq = 1\<rparr>"
  have b: "getitem (popt ?fr) 2 = Inr (5 / 2)" by (simp add: getitem_def)
  have f: "getitem (popt ?fr) 1 = Inr 1" by (simp add: getitem_def)
  have p: "(0::real) < 1" by simp
  have "canonical_beta (5 / 2) 1 = Inr (- (1 / 2))"
    by (simp add: canonical_beta_shift)
  with post_process_abs_bound [OF b f p] b f show ?thesis by simp
qed

subsection \<open>A frequency that is not positive\<close>




subsection \<open>What the post-processing leaves alone\<close>

lemma post_process_returns_iff:
  "(\<exists>r. post_process_fit_result fit_result = Inr r)
     \<longleftrightarrow> 2 < length (popt fit_result) \<and> popt fit_result ! 1 \<noteq> 0"
proof (cases "2 < length (popt fit_result)")
  case True
  show ?thesis
  proof (cases "popt fit_result ! 1 = 0")
    case z: True
    with True show ?thesis
      by (simp add: post_process_unfold canonical_beta_zero bind_res_def)
  next
    case False
    with True show ?thesis
      by (simp add: post_process_unfold canonical_beta_shift bind_res_def)
  qed
next
  case False
  then show ?thesis by (simp add: post_process_short)
qed

text \<open>
  C9. Whenever the post-processing returns a fit result, that result is the given one with
  a single update of the parameter vector at index 2: the vector keeps its length and every
  other entry, and the uncertainties, the covariance, the reduced chi-squared and every
  further component are unchanged.
\<close>

theorem post_process_frame:
  assumes "post_process_fit_result fit_result = Inr r"
  shows "(\<exists>v. r = fit_result\<lparr>popt := (popt fit_result)[2 := v]\<rparr>)
         \<and> length (popt r) = length (popt fit_result)
         \<and> (\<forall>i. i \<noteq> 2 \<longrightarrow> popt r ! i = popt fit_result ! i)
         \<and> popt_err r = popt_err fit_result
         \<and> pcov r = pcov fit_result
         \<and> reduced_chisq r = reduced_chisq fit_result
         \<and> fit_data.more r = fit_data.more fit_result"
proof -
  from assms obtain v where r: "r = fit_result\<lparr>popt := (popt fit_result)[2 := v]\<rparr>"
    by (auto simp: post_process_fit_result_def bind_res_def split: sum.splits)
  have "\<forall>i. i \<noteq> 2 \<longrightarrow> popt r ! i = popt fit_result ! i"
    by (simp add: r)
  with r show ?thesis by auto
qed

theorem post_process_frame_witness:
  "post_process_fit_result
     \<lparr>popt = [- 1, 2, 7 / 8, 0], popt_err = [1, 2, 3, 4], pcov = [[1]], reduced_chisq = 5\<rparr>
   = Inr \<lparr>popt = [- 1, 2, - (1 / 8), 0], popt_err = [1, 2, 3, 4], pcov = [[1]], reduced_chisq = 5\<rparr>
   \<and> popt_err \<lparr>popt = [- 1, 2, - (1 / 8), 0], popt_err = [1, 2, 3, 4], pcov = [[1]],
               reduced_chisq = 5\<rparr> = [1, 2, 3, 4]"
proof -
  let ?fr = "\<lparr>popt = [- 1, 2, 7 / 8, 0], popt_err = [1, 2, 3, 4], pcov = [[1]], reduced_chisq = 5\<rparr>"
  let ?r = "\<lparr>popt = [- 1, 2, - (1 / 8), 0], popt_err = [1, 2, 3, 4], pcov = [[1]], reduced_chisq = 5\<rparr>"
  have "\<lfloor>(9::real) / 4\<rfloor> = 2" by simp
  then have run: "post_process_fit_result ?fr = Inr ?r"
    by (simp add: post_process_unfold canonical_beta_shift bind_res_def)
  from post_process_frame [OF run] run show ?thesis by simp
qed

section \<open>Properties of the quality label\<close>

lemma evaluate_quality_zero_freq:
  assumes "nominal_value (fitval fit_data ''freq'') = 0"
  shows "evaluate_quality is_error_not_significant fitval fit_data = Inl ZeroDivisionError"
  using assms by (simp add: evaluate_quality_def bind_res_def py_truediv_def)

lemma evaluate_quality_nonzero_freq:
  assumes "nominal_value (fitval fit_data ''freq'') \<noteq> 0"
  shows "evaluate_quality is_error_not_significant fitval fit_data =
     Inr (if reduced_chisq fit_data < 3
            \<and> \<bar>nominal_value (fitval fit_data ''beta'')\<bar>
                < 1 / (2 * nominal_value (fitval fit_data ''freq''))
            \<and> is_error_not_significant (fitval fit_data ''beta'')
          then ''good'' else ''bad'')"
  using assms
  by (simp add: evaluate_quality_def bind_res_def py_truediv_def Let_def mult.commute)

text \<open>
  C4. For every fit result whose fitted frequency is not zero (so that \<open>1 / (2 freq)\<close> is
  defined), the quality evaluation returns a label, and the label is \<open>good\<close> if and only
  if the reduced chi-squared is below 3, the absolute value of the nominal beta is below
  \<open>1 / (2 freq)\<close> and the uncertainty of beta is reported not significant; it is \<open>bad\<close>
  if and only if one of the three fails. There is no third label.
\<close>

theorem evaluate_quality_good_iff:
  assumes "nominal_value (fitval fit_data ''freq'') \<noteq> 0"
  shows "(evaluate_quality is_error_not_significant fitval fit_data = Inr ''good''
            \<longleftrightarrow> reduced_chisq fit_data < 3
                \<and> \<bar>nominal_value (fitval fit_data ''beta'')\<bar>
                    < 1 / (2 * nominal_value (fitval fit_data ''freq''))
                \<and> is_error_not_significant (fitval fit_data ''beta''))
         \<and> (evaluate_quality is_error_not_significant fitval fit_data = Inr ''bad''
            \<longleftrightarrow> \<not> (reduced_chisq fit_data < 3
                \<and> \<bar>nominal_value (fitval fit_data ''beta'')\<bar>
                    < 1 / (2 * nominal_value (fitval fit_data ''freq''))
                \<and> is_error_not_significant (fitval fit_data ''beta'')))
         \<and> (evaluate_quality is_error_not_significant fitval fit_data = Inr ''good''
              \<or> evaluate_quality is_error_not_significant fitval fit_data = Inr ''bad'')"
  using assms by (simp add: evaluate_quality_nonzero_freq)

theorem evaluate_quality_good_iff_witness:
  "nominal_value
     ((\<lambda>fd name. \<lparr>nominal_value = (if name = ''beta'' then popt fd ! 2 else popt fd ! 1),
                   std_dev = 1 / 100\<rparr>)
      \<lparr>popt = [- 1, 1, 1 / 4, 0], popt_err = [], pcov = [], reduced_chisq = 1\<rparr> ''freq'') \<noteq> 0
   \<and> evaluate_quality (\<lambda>u. std_dev u < \<bar>nominal_value u\<bar>)
       (\<lambda>fd name. \<lparr>nominal_value = (if name = ''beta'' then popt fd ! 2 else popt fd ! 1),
                    std_dev = 1 / 100\<rparr>)
       \<lparr>popt = [- 1, 1, 1 / 4, 0], popt_err = [], pcov = [], reduced_chisq = 1\<rparr>
     = Inr ''good''
   \<and> evaluate_quality (\<lambda>u. std_dev u < \<bar>nominal_value u\<bar>)
       (\<lambda>fd name. \<lparr>nominal_value = (if name = ''beta'' then popt fd ! 2 else popt fd ! 1),
                    std_dev = 1 / 100\<rparr>)
       \<lparr>popt = [- 1, 1, 1 / 4, 0], popt_err = [], pcov = [], reduced_chisq = 7 / 2\<rparr>
     = Inr ''bad''"
proof -
  let ?fv = "\<lambda>fd name. \<lparr>nominal_value = (if name = ''beta'' then popt fd ! 2 else popt fd ! 1),
                   std_dev = (1 / 100 :: real)\<rparr>"
  let ?ns = "\<lambda>u. std_dev u < \<bar>nominal_value u\<bar>"
  let ?a = "\<lparr>popt = [- 1, 1, 1 / 4, 0], popt_err = [], pcov = [], reduced_chisq = 1\<rparr>"
  let ?b = "\<lparr>popt = [- 1, 1, 1 / 4, 0], popt_err = [], pcov = [], reduced_chisq = 7 / 2\<rparr>"
  have a: "nominal_value (?fv ?a ''freq'') \<noteq> 0" by simp
  have b: "nominal_value (?fv ?b ''freq'') \<noteq> 0" by simp
  from evaluate_quality_good_iff [of ?fv ?a ?ns, OF a]
  have "evaluate_quality ?ns ?fv ?a = Inr ''good''" by simp
  moreover from evaluate_quality_good_iff [of ?fv ?b ?ns, OF b]
  have "evaluate_quality ?ns ?fv ?b = Inr ''bad''" by simp
  ultimately show ?thesis using a by simp
qed

section \<open>Properties of the initial guesses\<close>

subsection \<open>Minimum, maximum and peak-to-peak\<close>

lemma fold_min_Min: "fold min vs (v::real) = Min (insert v (set vs))"
  using Min.set_eq_fold [of v vs] by simp

lemma fold_max_Max: "fold max vs (v::real) = Max (insert v (set vs))"
  using Max.set_eq_fold [of v vs] by simp

lemma py_min_Inr_iff: "py_min xs = Inr m \<longleftrightarrow> xs \<noteq> [] \<and> m = Min (set xs)"
  by (cases xs) (auto simp: py_min_def fold_min_Min)

lemma py_max_Inr_iff: "py_max xs = Inr m \<longleftrightarrow> xs \<noteq> [] \<and> m = Max (set xs)"
  by (cases xs) (auto simp: py_max_def fold_max_Max)

lemma py_min_Inl_iff: "py_min xs = Inl e \<longleftrightarrow> xs = [] \<and> e = ValueError"
  by (cases xs) (auto simp: py_min_def)

lemma py_max_Inl_iff: "py_max xs = Inl e \<longleftrightarrow> xs = [] \<and> e = ValueError"
  by (cases xs) (auto simp: py_max_def)

lemma ptp_Inr_iff: "ptp xs = Inr p \<longleftrightarrow> xs \<noteq> [] \<and> p = Max (set xs) - Min (set xs)"
  by (cases xs) (auto simp: ptp_def py_min_def py_max_def bind_res_def fold_min_Min fold_max_Max)

lemma py_min_nonempty: "xs \<noteq> [] \<Longrightarrow> py_min xs = Inr (Min (set xs))"
  by (simp add: py_min_Inr_iff)

lemma py_max_nonempty: "xs \<noteq> [] \<Longrightarrow> py_max xs = Inr (Max (set xs))"
  by (simp add: py_max_Inr_iff)

lemma ptp_nonempty: "xs \<noteq> [] \<Longrightarrow> ptp xs = Inr (Max (set xs) - Min (set xs))"
  by (simp add: ptp_Inr_iff)

lemma py_min_empty: "py_min [] = Inl ValueError"
  by (simp add: py_min_def)

subsection \<open>The evenly spaced points\<close>

lemma length_linspace: "length (linspace start stop num) = num"
  by (simp add: linspace_def)

lemma nth_linspace:
  assumes "j < num"
  shows "linspace start stop num ! j = start + real j * ((stop - start) / real (num - 1))"
  using assms by (simp add: linspace_def)

lemma linspace_first: "0 < num \<Longrightarrow> linspace start stop num ! 0 = start"
  by (simp add: nth_linspace)

lemma linspace_last: "1 < num \<Longrightarrow> linspace start stop num ! (num - 1) = stop"
  by (simp add: nth_linspace)

subsection \<open>The series with the most repetitions\<close>

lemma fixed_parameter_Inr_iff:
  "fixed_parameter self name = Inr v \<longleftrightarrow> fixed_parameters self name = Some v"
  by (simp add: fixed_parameter_def split: option.splits)

lemma highest_reps_Inr:
  assumes "fixed_parameters self ''reps0'' = Some k0"
    and "fixed_parameters self ''reps1'' = Some k1"
    and "fixed_parameters self ''reps2'' = Some k2"
  shows "highest_reps self =
     Inr (if k0 < k1 then (if k1 < k2 then (''series-2'', ''reps2'') else (''series-1'', ''reps1''))
          else (if k0 < k2 then (''series-2'', ''reps2'') else (''series-0'', ''reps0'')))"
  using assms by (simp add: highest_reps_def fixed_parameter_def bind_res_def)

lemma highest_reps_InrD:
  assumes "highest_reps self = Inr (series_label, reps_label)"
  shows "\<exists>k0 k1 k2. fixed_parameters self ''reps0'' = Some k0
           \<and> fixed_parameters self ''reps1'' = Some k1
           \<and> fixed_parameters self ''reps2'' = Some k2
           \<and> (series_label, reps_label) \<in>
                {(''series-0'', ''reps0''), (''series-1'', ''reps1''), (''series-2'', ''reps2'')}
           \<and> fixed_parameters self reps_label = Some (max k0 (max k1 k2))"
proof -
  from assms obtain k0 k1 k2 where k:
    "fixed_parameters self ''reps0'' = Some k0"
    "fixed_parameters self ''reps1'' = Some k1"
    "fixed_parameters self ''reps2'' = Some k2"
    by (auto simp: highest_reps_def fixed_parameter_def bind_res_def split: option.splits)
  from assms highest_reps_Inr [OF k] have
    "(series_label, reps_label) =
       (if k0 < k1 then (if k1 < k2 then (''series-2'', ''reps2'') else (''series-1'', ''reps1''))
        else (if k0 < k2 then (''series-2'', ''reps2'') else (''series-0'', ''reps0'')))"
    by simp
  with k show ?thesis
    by (auto split: if_splits)
qed

subsection \<open>The statements that write into the options\<close>

lemma set_if_empty_apply:
  "set_if_empty d key v k = (if k = key \<and> d key = None then Some v else d k)"
  by (simp add: set_if_empty_def)

lemma set_if_empty_keeps: "d k = Some w \<Longrightarrow> set_if_empty d key v k = Some w"
  by (auto simp: set_if_empty_apply)

lemma p0_seed_freq:
  "p0 (seed_freq opt g) k = (if k = ''freq'' \<and> p0 opt ''freq'' = None then Some g else p0 opt k)"
  by (simp add: seed_freq_def set_if_empty_apply)

lemma bounds_seed_freq: "bounds (seed_freq opt g) = bounds opt"
  by (simp add: seed_freq_def)

lemma p0_seed_bounds: "p0 (seed_bounds opt avg_x beta_bound ptp_y min_y max_y) = p0 opt"
  by (simp add: seed_bounds_def)

lemma bounds_seed_bounds:
  "bounds (seed_bounds opt avg_x beta_bound ptp_y min_y max_y) k =
     (case bounds opt k of
        Some b \<Rightarrow> Some b
      | None \<Rightarrow>
          if k = ''amp'' then Some (Fin (- 2 * ptp_y), Fin 0)
          else if k = ''freq'' then Some (Fin 0, PosInf)
          else if k = ''beta'' then Some (Fin (avg_x - beta_bound), Fin (avg_x + beta_bound))
          else if k = ''base'' then Some (Fin (min_y - ptp_y), Fin (max_y + ptp_y))
          else None)"
  by (simp add: seed_bounds_def set_if_empty_apply split: option.splits)

lemma p0_seed_base:
  "p0 (seed_base opt base_guess) k =
     (if k = ''base'' \<and> p0 opt ''base'' = None
      then Some (case p0 opt ''amp'' of
                   None \<Rightarrow> base_guess
                 | Some a \<Rightarrow> if a = 0 then base_guess else a)
      else p0 opt k)"
  by (simp add: seed_base_def set_if_empty_apply)

lemma bounds_seed_base: "bounds (seed_base opt base_guess) = bounds opt"
  by (simp add: seed_base_def)

subsection \<open>The fan-out\<close>

lemma nth_concat_map_block:
  assumes "\<And>x. x \<in> set xs \<Longrightarrow> length (f x) = n" and "i < length xs" and "j < n"
  shows "concat (map f xs) ! (n * i + j) = f (xs ! i) ! j"
  using assms
proof (induction xs arbitrary: i)
  case Nil
  then show ?case by simp
next
  case (Cons x xs)
  show ?case
  proof (cases i)
    case 0
    with Cons.prems show ?thesis by (simp add: nth_append)
  next
    case (Suc i')
    with Cons.prems have "concat (map f xs) ! (n * i' + j) = f (xs ! i') ! j"
      by (intro Cons.IH) simp_all
    moreover have "length (f x) = n" using Cons.prems(1) by simp
    ultimately show ?thesis using Suc by (simp add: nth_append)
  qed
qed

lemma length_fan_out: "length (fan_out opt ptp_y min_beta max_beta) = 60"
  by (simp add: fan_out_def length_linspace)

lemma fan_out_nth:
  assumes "i < 3" and "j < 20"
  shows "fan_out opt ptp_y min_beta max_beta ! (20 * i + j) =
     opt\<lparr>p0 := set_if_empty
                  (set_if_empty (p0 opt) ''amp'' (ptp_y * ([- 1, - (1 / 2), - (1 / 4)] ! i)))
                  ''beta'' (linspace min_beta max_beta 20 ! j)\<rparr>"
proof -
  let ?f = "\<lambda>amp_factor. map (\<lambda>beta_guess.
      opt\<lparr>p0 := set_if_empty (set_if_empty (p0 opt) ''amp'' (ptp_y * amp_factor))
                   ''beta'' beta_guess\<rparr>) (linspace min_beta max_beta 20)"
  have "concat (map ?f [- 1, - (1 / 2), - (1 / 4)]) ! (20 * i + j)
      = ?f ([- 1, - (1 / 2), - (1 / 4)] ! i) ! j"
    using assms by (intro nth_concat_map_block) (simp_all add: length_linspace)
  then show ?thesis
    using assms by (simp add: fan_out_def length_linspace)
qed

lemma fan_out_member:
  assumes "c \<in> set (fan_out opt ptp_y min_beta max_beta)"
  shows "\<exists>amp_guess beta_guess.
           c = opt\<lparr>p0 := set_if_empty (set_if_empty (p0 opt) ''amp'' amp_guess)
                            ''beta'' beta_guess\<rparr>"
  using assms by (auto simp: fan_out_def)

lemma fan_out_bounds:
  assumes "c \<in> set (fan_out opt ptp_y min_beta max_beta)"
  shows "bounds c = bounds opt"
  using fan_out_member [OF assms] by auto

lemma fan_out_p0_kept:
  assumes "c \<in> set (fan_out opt ptp_y min_beta max_beta)" and "p0 opt k = Some w"
  shows "p0 c k = Some w"
  using fan_out_member [OF assms(1)] assms(2) by (auto simp: set_if_empty_apply)

lemma fan_out_p0_other:
  assumes "c \<in> set (fan_out opt ptp_y min_beta max_beta)" and "k \<noteq> ''amp''" and "k \<noteq> ''beta''"
  shows "p0 c k = p0 opt k"
  using fan_out_member [OF assms(1)] assms(2,3) by (auto simp: set_if_empty_apply)

subsection \<open>A run that returns\<close>

lemma bind_res_Inr_iff: "bind_res m f = Inr r \<longleftrightarrow> (\<exists>v. m = Inr v \<and> f v = Inr r)"
  by (cases m) (simp_all add: bind_res_def)

lemma py_truediv_Inr_iff: "py_truediv a b = Inr q \<longleftrightarrow> b \<noteq> 0 \<and> q = a / b"
  by (auto simp: py_truediv_def)

text \<open>
  What a returning run has computed: the data are not empty, the three repetition counts
  are there, the chosen one and the seeded frequency guess are not zero, and the result
  is the fan-out of the options seeded in lines 158 to 172.
\<close>

lemma generate_fit_guesses_InrD:
  assumes "generate_fit_guesses frequency self user_opt = Inr options"
  shows "\<exists>series_label reps_label reps2 freq_guess.
     curve_x (data self (Some ''series-0'')) \<noteq> []
     \<and> curve_y (data self None) \<noteq> []
     \<and> highest_reps self = Inr (series_label, reps_label)
     \<and> fixed_parameters self reps_label = Some reps2
     \<and> reps2 \<noteq> 0
     \<and> p0 (seed_freq user_opt
             (frequency (curve_x (data self (Some series_label)))
                        (curve_y (data self (Some series_label))) / of_int reps2)) ''freq''
         = Some freq_guess
     \<and> freq_guess \<noteq> 0
     \<and> options =
         fan_out
           (seed_base
             (seed_bounds
               (seed_freq user_opt
                 (frequency (curve_x (data self (Some series_label)))
                            (curve_y (data self (Some series_label))) / of_int reps2))
               ((Max (set (curve_x (data self (Some ''series-0''))))
                  + Min (set (curve_x (data self (Some ''series-0''))))) / 2)
               (max (5 / freq_guess)
                    (Max (set (curve_x (data self (Some ''series-0''))))
                      - Min (set (curve_x (data self (Some ''series-0''))))))
               (Max (set (curve_y (data self None))) - Min (set (curve_y (data self None))))
               (Min (set (curve_y (data self None))))
               (Max (set (curve_y (data self None)))))
             ((Max (set (curve_y (data self None))) - Min (set (curve_y (data self None)))) / 2))
           (Max (set (curve_y (data self None))) - Min (set (curve_y (data self None))))
           (Min (set (curve_x (data self (Some ''series-0'')))))
           (Max (set (curve_x (data self (Some ''series-0'')))))"
  using assms
  unfolding generate_fit_guesses_def Let_def
  by (auto simp: bind_res_Inr_iff py_truediv_Inr_iff py_min_Inr_iff py_max_Inr_iff ptp_Inr_iff
      fixed_parameter_Inr_iff split: option.splits)

text \<open>Conversely, under those conditions the run returns that fan-out.\<close>

lemma generate_fit_guesses_InrI:
  assumes "curve_x (data self (Some ''series-0'')) \<noteq> []"
    and "curve_y (data self None) \<noteq> []"
    and "highest_reps self = Inr (series_label, reps_label)"
    and "fixed_parameters self reps_label = Some reps2"
    and "reps2 \<noteq> 0"
    and "p0 (seed_freq user_opt
             (frequency (curve_x (data self (Some series_label)))
                        (curve_y (data self (Some series_label))) / of_int reps2)) ''freq''
         = Some freq_guess"
    and "freq_guess \<noteq> 0"
  shows "generate_fit_guesses frequency self user_opt =
     Inr (fan_out
           (seed_base
             (seed_bounds
               (seed_freq user_opt
                 (frequency (curve_x (data self (Some series_label)))
                            (curve_y (data self (Some series_label))) / of_int reps2))
               ((Max (set (curve_x (data self (Some ''series-0''))))
                  + Min (set (curve_x (data self (Some ''series-0''))))) / 2)
               (max (5 / freq_guess)
                    (Max (set (curve_x (data self (Some ''series-0''))))
                      - Min (set (curve_x (data self (Some ''series-0''))))))
               (Max (set (curve_y (data self None))) - Min (set (curve_y (data self None))))
               (Min (set (curve_y (data self None))))
               (Max (set (curve_y (data self None)))))
             ((Max (set (curve_y (data self None))) - Min (set (curve_y (data self None)))) / 2))
           (Max (set (curve_y (data self None))) - Min (set (curve_y (data self None))))
           (Min (set (curve_x (data self (Some ''series-0'')))))
           (Max (set (curve_x (data self (Some ''series-0''))))))"
  using assms
  unfolding generate_fit_guesses_def Let_def
  by (simp add: bind_res_def py_truediv_def py_min_nonempty py_max_nonempty ptp_nonempty
      fixed_parameter_def)

text \<open>
  When the method returns at all: the x data of series 0 and the y data of all series are
  not empty, the three repetition counts are in the dictionary, the largest one is not
  zero, and the frequency guess (the user's or, without one, the estimate divided by the
  repetition count) is not zero. Otherwise it raises.
\<close>

lemma generate_fit_guesses_returns_iff:
  "(\<exists>options. generate_fit_guesses frequency self user_opt = Inr options) \<longleftrightarrow>
     curve_x (data self (Some ''series-0'')) \<noteq> []
     \<and> curve_y (data self None) \<noteq> []
     \<and> (\<exists>series_label reps_label reps2.
           highest_reps self = Inr (series_label, reps_label)
           \<and> fixed_parameters self reps_label = Some reps2
           \<and> reps2 \<noteq> 0
           \<and> (case p0 user_opt ''freq'' of
                 None \<Rightarrow> frequency (curve_x (data self (Some series_label)))
                                   (curve_y (data self (Some series_label))) \<noteq> 0
               | Some f \<Rightarrow> f \<noteq> 0))"
  (is "?lhs \<longleftrightarrow> ?rhs")
proof
  assume ?lhs
  then obtain options where "generate_fit_guesses frequency self user_opt = Inr options" ..
  from generate_fit_guesses_InrD [OF this] show ?rhs
    by (auto simp: p0_seed_freq split: option.splits if_splits)
next
  assume r: ?rhs
  then obtain series_label reps_label reps2 where
    hr: "highest_reps self = Inr (series_label, reps_label)"
    and r2: "fixed_parameters self reps_label = Some reps2" "reps2 \<noteq> 0"
    and f: "case p0 user_opt ''freq'' of
              None \<Rightarrow> frequency (curve_x (data self (Some series_label)))
                                (curve_y (data self (Some series_label))) \<noteq> 0
            | Some f \<Rightarrow> f \<noteq> 0"
    by blast
  define g where "g = (case p0 user_opt ''freq'' of
      None \<Rightarrow> frequency (curve_x (data self (Some series_label)))
                        (curve_y (data self (Some series_label))) / of_int reps2
    | Some f \<Rightarrow> f)"
  have seeded: "p0 (seed_freq user_opt
             (frequency (curve_x (data self (Some series_label)))
                        (curve_y (data self (Some series_label))) / of_int reps2)) ''freq''
         = Some g"
    by (simp add: p0_seed_freq g_def split: option.splits)
  have nz: "g \<noteq> 0"
    using f r2(2) by (simp add: g_def split: option.splits)
  show ?lhs
  proof (rule exI, rule generate_fit_guesses_InrI)
    show "curve_x (data self (Some ''series-0'')) \<noteq> []" using r by simp
    show "curve_y (data self None) \<noteq> []" using r by simp
    show "highest_reps self = Inr (series_label, reps_label)" by (rule hr)
    show "fixed_parameters self reps_label = Some reps2" by (rule r2)
    show "reps2 \<noteq> 0" by (rule r2)
    show "p0 (seed_freq user_opt
             (frequency (curve_x (data self (Some series_label)))
                        (curve_y (data self (Some series_label))) / of_int reps2)) ''freq''
         = Some g" by (rule seeded)
    show "g \<noteq> 0" by (rule nz)
  qed
qed

subsection \<open>The example run, evaluated\<close>

lemma example_highest_reps: "highest_reps example_analysis = Inr (''series-2'', ''reps2'')"
  by (simp add: highest_reps_def fixed_parameter_def bind_res_def example_analysis_def)

lemma example_run:
  "generate_fit_guesses example_frequency example_analysis empty_options =
     Inr (fan_out
           (seed_base
             (seed_bounds (seed_freq empty_options (1 / 2)) 1 10 (1 / 2) (1 / 4) (3 / 4))
             (1 / 4))
           (1 / 2) (- 1) 3)"
  unfolding generate_fit_guesses_def example_highest_reps
  by (simp add: Let_def bind_res_def py_min_def py_max_def ptp_def
      py_truediv_def fixed_parameter_def p0_seed_freq
      example_analysis_def example_frequency_def empty_options_def)

lemma example_user_run:
  "generate_fit_guesses example_frequency example_analysis example_user_options =
     Inr (fan_out
           (seed_base
             (seed_bounds (seed_freq example_user_options (1 / 2)) 1 4 (1 / 2) (1 / 4) (3 / 4))
             (1 / 4))
           (1 / 2) (- 1) 3)"
  unfolding generate_fit_guesses_def example_highest_reps
  by (simp add: Let_def bind_res_def py_min_def py_max_def ptp_def
      py_truediv_def fixed_parameter_def p0_seed_freq
      example_analysis_def example_frequency_def example_user_options_def)

subsection \<open>The candidates\<close>

text \<open>
  C5. A run that returns gives exactly 60 candidates, in the order of the two loops:
  candidate \<open>20 i + j\<close> belongs to the \<open>i\<close>-th amplitude factor of \<open>-1, -1/2, -1/4\<close> and
  to the \<open>j\<close>-th of 20 evenly spaced points from the minimum to the maximum of the x values
  of series 0. Where the user gave no amp guess its amp is the factor times the
  peak-to-peak of all y data, and where the user gave no beta guess its beta is that
  point; a guess the user gave for amp or beta is the value in every candidate.
\<close>

theorem generate_fit_guesses_candidates:
  assumes "generate_fit_guesses frequency self user_opt = Inr options"
  shows "let x_data = curve_x (data self (Some ''series-0''));
             min_beta = Min (set x_data);
             max_beta = Max (set x_data);
             all_y = curve_y (data self None);
             ptp_y = Max (set all_y) - Min (set all_y)
         in length options = 60
            \<and> (p0 user_opt ''amp'' = None \<longrightarrow>
                 (\<forall>i<3. \<forall>j<20. p0 (options ! (20 * i + j)) ''amp''
                    = Some (ptp_y * ([- 1, - (1 / 2), - (1 / 4)] ! i))))
            \<and> (p0 user_opt ''beta'' = None \<longrightarrow>
                 (\<forall>i<3. \<forall>j<20. p0 (options ! (20 * i + j)) ''beta''
                    = Some (min_beta + real j * ((max_beta - min_beta) / 19))))
            \<and> (\<forall>a. p0 user_opt ''amp'' = Some a \<longrightarrow> (\<forall>c\<in>set options. p0 c ''amp'' = Some a))
            \<and> (\<forall>b. p0 user_opt ''beta'' = Some b \<longrightarrow> (\<forall>c\<in>set options. p0 c ''beta'' = Some b))"
proof -
  from generate_fit_guesses_InrD [OF assms]
  obtain opt ptp_y min_beta max_beta where
    options: "options = fan_out opt ptp_y min_beta max_beta"
    and ptp: "ptp_y = Max (set (curve_y (data self None))) - Min (set (curve_y (data self None)))"
    and mn: "min_beta = Min (set (curve_x (data self (Some ''series-0''))))"
    and mx: "max_beta = Max (set (curve_x (data self (Some ''series-0''))))"
    and amp: "p0 opt ''amp'' = p0 user_opt ''amp''"
    and beta: "p0 opt ''beta'' = p0 user_opt ''beta''"
    by (auto simp: p0_seed_base p0_seed_bounds p0_seed_freq)
  have len: "length options = 60"
    by (simp add: options length_fan_out)
  have a_none: "p0 (options ! (20 * i + j)) ''amp'' = Some (ptp_y * ([- 1, - (1 / 2), - (1 / 4)] ! i))"
    if "p0 user_opt ''amp'' = None" "i < 3" "j < 20" for i j
    using that amp by (simp add: options fan_out_nth set_if_empty_apply)
  have b_none: "p0 (options ! (20 * i + j)) ''beta''
        = Some (min_beta + real j * ((max_beta - min_beta) / 19))"
    if "p0 user_opt ''beta'' = None" "i < 3" "j < 20" for i j
    using that beta by (simp add: options fan_out_nth set_if_empty_apply nth_linspace)
  have a_some: "p0 c ''amp'' = Some a" if "p0 user_opt ''amp'' = Some a" "c \<in> set options" for a c
    using that amp by (simp add: options fan_out_p0_kept)
  have b_some: "p0 c ''beta'' = Some b" if "p0 user_opt ''beta'' = Some b" "c \<in> set options" for b c
    using that beta by (simp add: options fan_out_p0_kept)
  from len a_none b_none a_some b_some show ?thesis
    unfolding Let_def ptp [symmetric] mn [symmetric] mx [symmetric] by blast
qed

theorem generate_fit_guesses_candidates_witness:
  "\<exists>options. generate_fit_guesses example_frequency example_analysis empty_options = Inr options
      \<and> length options = 60
      \<and> p0 (options ! 21) ''amp'' = Some (- (1 / 4))
      \<and> p0 (options ! 21) ''beta'' = Some (- (15 / 19))
      \<and> p0 (options ! 59) ''amp'' = Some (- (1 / 8))
      \<and> p0 (options ! 59) ''beta'' = Some 3"
proof -
  let ?options = "fan_out
           (seed_base
             (seed_bounds (seed_freq empty_options (1 / 2)) 1 10 (1 / 2) (1 / 4) (3 / 4))
             (1 / 4))
           (1 / 2) (- 1) 3"
  have none: "p0 empty_options ''amp'' = None" "p0 empty_options ''beta'' = None"
    by (simp_all add: empty_options_def)
  have x: "Min (set (curve_x (data example_analysis (Some ''series-0'')))) = - 1"
    "Max (set (curve_x (data example_analysis (Some ''series-0'')))) = 3"
    by (simp_all add: example_analysis_def)
  have y: "Max (set (curve_y (data example_analysis None)))
      - Min (set (curve_y (data example_analysis None))) = 1 / 2"
    by (simp add: example_analysis_def)
  note c = generate_fit_guesses_candidates [OF example_run, unfolded Let_def x y]
  from c none have len: "length ?options = 60" by blast
  from c none have amp: "\<forall>i<3. \<forall>j<20. p0 (?options ! (20 * i + j)) ''amp''
      = Some (1 / 2 * ([- 1, - (1 / 2), - (1 / 4)] ! i))"
    by blast
  from c none have beta: "\<forall>i<3. \<forall>j<20. p0 (?options ! (20 * i + j)) ''beta''
      = Some (- 1 + real j * ((3 - - 1) / 19))"
    by blast
  from amp [rule_format, of 1 1] have "p0 (?options ! 21) ''amp'' = Some (- (1 / 4))"
    by simp
  moreover from beta [rule_format, of 1 1] have "p0 (?options ! 21) ''beta'' = Some (- (15 / 19))"
    by simp
  moreover from amp [rule_format, of 2 19] have "p0 (?options ! 59) ''amp'' = Some (- (1 / 8))"
    by simp
  moreover from beta [rule_format, of 2 19] have "p0 (?options ! 59) ''beta'' = Some 3"
    by simp
  ultimately show ?thesis
    using example_run len by simp
qed

subsection \<open>The frequency guess\<close>

text \<open>
  C6. In a run that returns, the series chosen for the frequency estimate is one of the
  three whose repetition count is the largest (no count is larger). Where the user gave no
  freq guess, the freq guess of every candidate is the frequency estimate of that series'
  data divided by that series' repetition count; a freq guess the user gave is the value
  in every candidate.
\<close>

theorem generate_fit_guesses_freq_seed:
  assumes "generate_fit_guesses frequency self user_opt = Inr options"
  shows "\<exists>series_label reps_label reps2.
           highest_reps self = Inr (series_label, reps_label)
           \<and> (series_label, reps_label) \<in>
                {(''series-0'', ''reps0''), (''series-1'', ''reps1''), (''series-2'', ''reps2'')}
           \<and> fixed_parameters self reps_label = Some reps2
           \<and> (\<forall>name\<in>{''reps0'', ''reps1'', ''reps2''}.
                  \<exists>k. fixed_parameters self name = Some k \<and> k \<le> reps2)
           \<and> (\<forall>c\<in>set options. p0 c ''freq'' =
                  Some (case p0 user_opt ''freq'' of
                          None \<Rightarrow> frequency (curve_x (data self (Some series_label)))
                                            (curve_y (data self (Some series_label)))
                                   / of_int reps2
                        | Some f \<Rightarrow> f))"
proof -
  from generate_fit_guesses_InrD [OF assms]
  obtain series_label reps_label reps2 opt ptp_y min_beta max_beta where
    hr: "highest_reps self = Inr (series_label, reps_label)"
    and r2: "fixed_parameters self reps_label = Some reps2"
    and options: "options = fan_out opt ptp_y min_beta max_beta"
    and freq: "p0 opt ''freq'' = p0 (seed_freq user_opt
        (frequency (curve_x (data self (Some series_label)))
                   (curve_y (data self (Some series_label))) / of_int reps2)) ''freq''"
    by (auto simp: p0_seed_base p0_seed_bounds)
  from highest_reps_InrD [OF hr] r2 obtain k0 k1 k2 where
    k: "fixed_parameters self ''reps0'' = Some k0"
       "fixed_parameters self ''reps1'' = Some k1"
       "fixed_parameters self ''reps2'' = Some k2"
    and mem: "(series_label, reps_label) \<in>
        {(''series-0'', ''reps0''), (''series-1'', ''reps1''), (''series-2'', ''reps2'')}"
    and mx: "reps2 = max k0 (max k1 k2)"
    by auto
  have largest: "\<forall>name\<in>{''reps0'', ''reps1'', ''reps2''}.
      \<exists>k. fixed_parameters self name = Some k \<and> k \<le> reps2"
    using k mx by auto
  have seeded: "\<forall>c\<in>set options. p0 c ''freq'' =
      Some (case p0 user_opt ''freq'' of
              None \<Rightarrow> frequency (curve_x (data self (Some series_label)))
                                (curve_y (data self (Some series_label))) / of_int reps2
            | Some f \<Rightarrow> f)"
  proof
    fix c assume "c \<in> set options"
    then have "p0 c ''freq'' = p0 opt ''freq''"
      by (simp add: options fan_out_p0_other)
    then show "p0 c ''freq'' =
      Some (case p0 user_opt ''freq'' of
              None \<Rightarrow> frequency (curve_x (data self (Some series_label)))
                                (curve_y (data self (Some series_label))) / of_int reps2
            | Some f \<Rightarrow> f)"
      by (simp add: freq p0_seed_freq split: option.splits)
  qed
  from hr mem r2 largest seeded show ?thesis by blast
qed

theorem generate_fit_guesses_freq_seed_witness:
  "\<exists>options. generate_fit_guesses example_frequency example_analysis empty_options = Inr options
      \<and> highest_reps example_analysis = Inr (''series-2'', ''reps2'')
      \<and> fixed_parameters example_analysis ''reps2'' = Some 5
      \<and> p0 (options ! 0) ''freq'' = Some (1 / 2)"
proof -
  let ?options = "fan_out
           (seed_base
             (seed_bounds (seed_freq empty_options (1 / 2)) 1 10 (1 / 2) (1 / 4) (3 / 4))
             (1 / 4))
           (1 / 2) (- 1) 3"
  from generate_fit_guesses_freq_seed [OF example_run]
  obtain series_label reps_label reps2 where
    hr: "highest_reps example_analysis = Inr (series_label, reps_label)"
    and r2: "fixed_parameters example_analysis reps_label = Some reps2"
    and seeded: "\<forall>c\<in>set ?options. p0 c ''freq'' =
        Some (case p0 empty_options ''freq'' of
                None \<Rightarrow> example_frequency (curve_x (data example_analysis (Some series_label)))
                          (curve_y (data example_analysis (Some series_label))) / of_int reps2
              | Some f \<Rightarrow> f)"
    by blast
  from hr have l: "series_label = ''series-2''" "reps_label = ''reps2''"
    by (simp_all add: example_highest_reps)
  with r2 have r: "reps2 = 5" by (simp add: example_analysis_def)
  have "?options ! 0 \<in> set ?options"
    by (rule nth_mem) (simp add: length_fan_out)
  with seeded have "p0 (?options ! 0) ''freq'' = Some (1 / 2)"
    by (simp add: l r empty_options_def example_analysis_def example_frequency_def)
  with example_run example_highest_reps show ?thesis
    by (simp add: example_analysis_def)
qed

subsection \<open>The bounds\<close>

text \<open>
  C7. In a run that returns, every candidate carries the same bounds, and for each of the
  four parameters for which the user gave no bounds they are: amp from \<open>-2 ptp(y)\<close> to
  exactly 0; freq from 0 to infinity; base from \<open>min(y) - ptp(y)\<close> to \<open>max(y) + ptp(y)\<close>;
  beta from \<open>m - w\<close> to \<open>m + w\<close>, where \<open>y\<close> is the y data of all series, \<open>m\<close> is the
  midpoint of the x values of series 0 and \<open>w = max(5 / freq_guess, x span)\<close> with
  \<open>freq_guess\<close> the candidate's (non-zero) freq guess. Bounds the user gave are kept.
\<close>

theorem generate_fit_guesses_bounds:
  assumes "generate_fit_guesses frequency self user_opt = Inr options"
    and "c \<in> set options"
  shows "let x_data = curve_x (data self (Some ''series-0''));
             m = (Max (set x_data) + Min (set x_data)) / 2;
             span_x = Max (set x_data) - Min (set x_data);
             all_y = curve_y (data self None);
             ptp_y = Max (set all_y) - Min (set all_y)
         in \<exists>freq_guess.
              p0 c ''freq'' = Some freq_guess \<and> freq_guess \<noteq> 0
              \<and> (bounds user_opt ''amp'' = None \<longrightarrow>
                    bounds c ''amp'' = Some (Fin (- 2 * ptp_y), Fin 0))
              \<and> (bounds user_opt ''freq'' = None \<longrightarrow>
                    bounds c ''freq'' = Some (Fin 0, PosInf))
              \<and> (bounds user_opt ''base'' = None \<longrightarrow>
                    bounds c ''base''
                      = Some (Fin (Min (set all_y) - ptp_y), Fin (Max (set all_y) + ptp_y)))
              \<and> (bounds user_opt ''beta'' = None \<longrightarrow>
                    bounds c ''beta''
                      = Some (Fin (m - max (5 / freq_guess) span_x),
                              Fin (m + max (5 / freq_guess) span_x)))
              \<and> (\<forall>k b. bounds user_opt k = Some b \<longrightarrow> bounds c k = Some b)"
proof -
  let ?X = "set (curve_x (data self (Some ''series-0'')))"
  let ?Y = "set (curve_y (data self None))"
  from generate_fit_guesses_InrD [OF assms(1)]
  obtain opt1 freq_guess where
    f: "p0 opt1 ''freq'' = Some freq_guess" and nz: "freq_guess \<noteq> 0"
    and b1: "bounds opt1 = bounds user_opt"
    and options: "options =
      fan_out
        (seed_base
          (seed_bounds opt1 ((Max ?X + Min ?X) / 2) (max (5 / freq_guess) (Max ?X - Min ?X))
             (Max ?Y - Min ?Y) (Min ?Y) (Max ?Y))
          ((Max ?Y - Min ?Y) / 2))
        (Max ?Y - Min ?Y) (Min ?X) (Max ?X)"
    by (auto simp: bounds_seed_freq)
  from assms(2) have pc: "p0 c ''freq'' = Some freq_guess"
    by (simp add: options fan_out_p0_other p0_seed_base p0_seed_bounds f)
  from assms(2) have bc: "bounds c k =
      (case bounds user_opt k of
        Some b \<Rightarrow> Some b
      | None \<Rightarrow>
          if k = ''amp'' then Some (Fin (- 2 * (Max ?Y - Min ?Y)), Fin 0)
          else if k = ''freq'' then Some (Fin 0, PosInf)
          else if k = ''beta'' then
            Some (Fin ((Max ?X + Min ?X) / 2 - max (5 / freq_guess) (Max ?X - Min ?X)),
                  Fin ((Max ?X + Min ?X) / 2 + max (5 / freq_guess) (Max ?X - Min ?X)))
          else if k = ''base'' then
            Some (Fin (Min ?Y - (Max ?Y - Min ?Y)), Fin (Max ?Y + (Max ?Y - Min ?Y)))
          else None)" for k
    by (simp add: options fan_out_bounds bounds_seed_base bounds_seed_bounds b1)
  show ?thesis
    unfolding Let_def
    by (rule exI [of _ freq_guess]) (simp add: pc nz bc)
qed

theorem generate_fit_guesses_bounds_witness:
  "\<exists>options. generate_fit_guesses example_frequency example_analysis empty_options = Inr options
      \<and> options ! 7 \<in> set options
      \<and> p0 (options ! 7) ''freq'' = Some (1 / 2)
      \<and> bounds (options ! 7) ''amp'' = Some (Fin (- 1), Fin 0)
      \<and> bounds (options ! 7) ''freq'' = Some (Fin 0, PosInf)
      \<and> bounds (options ! 7) ''base'' = Some (Fin (- (1 / 4)), Fin (5 / 4))
      \<and> bounds (options ! 7) ''beta'' = Some (Fin (- 9), Fin 11)"
proof -
  let ?options = "fan_out
           (seed_base
             (seed_bounds (seed_freq empty_options (1 / 2)) 1 10 (1 / 2) (1 / 4) (3 / 4))
             (1 / 4))
           (1 / 2) (- 1) 3"
  have mem: "?options ! 7 \<in> set ?options"
    by (rule nth_mem) (simp add: length_fan_out)
  have none: "bounds empty_options k = None" for k
    by (simp add: empty_options_def)
  have x: "Min (set (curve_x (data example_analysis (Some ''series-0'')))) = - 1"
    "Max (set (curve_x (data example_analysis (Some ''series-0'')))) = 3"
    by (simp_all add: example_analysis_def)
  have y: "Min (set (curve_y (data example_analysis None))) = 1 / 4"
    "Max (set (curve_y (data example_analysis None))) = 3 / 4"
    by (simp_all add: example_analysis_def)
  from generate_fit_guesses_bounds [OF example_run mem, unfolded Let_def x y]
  obtain freq_guess where
    f: "p0 (?options ! 7) ''freq'' = Some freq_guess"
    and b: "bounds (?options ! 7) ''amp'' = Some (Fin (- 2 * (3 / 4 - 1 / 4)), Fin 0)"
       "bounds (?options ! 7) ''freq'' = Some (Fin 0, PosInf)"
       "bounds (?options ! 7) ''base''
          = Some (Fin (1 / 4 - (3 / 4 - 1 / 4)), Fin (3 / 4 + (3 / 4 - 1 / 4)))"
       "bounds (?options ! 7) ''beta''
          = Some (Fin ((3 + - 1) / 2 - max (5 / freq_guess) (3 - - 1)),
                  Fin ((3 + - 1) / 2 + max (5 / freq_guess) (3 - - 1)))"
    using none by auto
  have "p0 (?options ! 7) ''freq'' = Some (1 / 2)"
    using mem by (simp add: fan_out_p0_other p0_seed_base p0_seed_bounds p0_seed_freq
        empty_options_def)
  with f have fg: "freq_guess = 1 / 2" by simp
  from b f fg mem example_run show ?thesis by simp
qed

subsection \<open>The base guess\<close>

text \<open>
  C10. In a run that returns, where the user gave no base guess: if the user gave an amp
  guess that is not zero, the base guess of every candidate is that amp guess; if the
  user gave no amp guess, or the amp guess zero, it is half the range of the y data of
  all series, \<open>(max(y) - min(y)) / 2\<close>.
\<close>

theorem generate_fit_guesses_base_seed:
  assumes "generate_fit_guesses frequency self user_opt = Inr options"
    and "c \<in> set options"
    and "p0 user_opt ''base'' = None"
  shows "(\<forall>a. p0 user_opt ''amp'' = Some a \<and> a \<noteq> 0 \<longrightarrow> p0 c ''base'' = Some a)
         \<and> (p0 user_opt ''amp'' = None \<or> p0 user_opt ''amp'' = Some 0 \<longrightarrow>
              p0 c ''base'' = Some ((Max (set (curve_y (data self None)))
                                      - Min (set (curve_y (data self None)))) / 2))"
proof -
  let ?Y = "set (curve_y (data self None))"
  from generate_fit_guesses_InrD [OF assms(1)]
  obtain opt2 ptp_y min_beta max_beta where
    options: "options = fan_out (seed_base opt2 ((Max ?Y - Min ?Y) / 2)) ptp_y min_beta max_beta"
    and amp: "p0 opt2 ''amp'' = p0 user_opt ''amp''"
    and base: "p0 opt2 ''base'' = p0 user_opt ''base''"
    by (auto simp: p0_seed_bounds p0_seed_freq)
  from assms(2) have "p0 c ''base'' = p0 (seed_base opt2 ((Max ?Y - Min ?Y) / 2)) ''base''"
    by (simp add: options fan_out_p0_other)
  then have "p0 c ''base'' =
      Some (case p0 user_opt ''amp'' of
              None \<Rightarrow> (Max ?Y - Min ?Y) / 2
            | Some a \<Rightarrow> if a = 0 then (Max ?Y - Min ?Y) / 2 else a)"
    by (simp add: p0_seed_base amp base assms(3))
  then show ?thesis by auto
qed

theorem generate_fit_guesses_base_seed_witness:
  "\<exists>options. generate_fit_guesses example_frequency example_analysis example_user_options
        = Inr options
      \<and> options ! 3 \<in> set options
      \<and> p0 example_user_options ''base'' = None
      \<and> p0 example_user_options ''amp'' = Some (- (3 / 10))
      \<and> p0 (options ! 3) ''base'' = Some (- (3 / 10))"
proof -
  let ?options = "fan_out
           (seed_base
             (seed_bounds (seed_freq example_user_options (1 / 2)) 1 4 (1 / 2) (1 / 4) (3 / 4))
             (1 / 4))
           (1 / 2) (- 1) 3"
  have mem: "?options ! 3 \<in> set ?options"
    by (rule nth_mem) (simp add: length_fan_out)
  have base: "p0 example_user_options ''base'' = None"
    by (simp add: example_user_options_def)
  have amp: "p0 example_user_options ''amp'' = Some (- (3 / 10))"
    by (simp add: example_user_options_def)
  from generate_fit_guesses_base_seed [OF example_user_run mem base] amp
  have "p0 (?options ! 3) ''base'' = Some (- (3 / 10))" by simp
  with example_user_run mem base amp show ?thesis by simp
qed

end
